theory Spec2Isabelle
  imports Main "HOL-Library.Word"
begin

unbundle bit_operations_syntax

section \<open>Data model of the service module\<close>

text \<open>
  Go's fixed-width integers are words: \<open>byte\<close> and \<open>uint16\<close>, \<open>uint64\<close> are read
  with \<open>uint\<close>/\<open>unat\<close>; \<open>int16\<close> and \<open>int64\<close> are the same bit patterns read with
  \<open>sint\<close>. The conversions \<open>uint64(x)\<close> and \<open>int64(x)\<close> between types of one width
  keep the bits, so in the model they are the identity. A Go \<open>string\<close> and a
  \<open>[]byte\<close> are sequences of bytes; \<open>len\<close> counts bytes.
\<close>

type_synonym byte = "8 word"
type_synonym bytes = "byte list"
type_synonym uint16 = "16 word"
type_synonym int16 = "16 word"
type_synonym uint64 = "64 word"
type_synonym int64 = "64 word"

text \<open>\<open>sdk.AccAddress\<close> and \<open>tmbytes.HexBytes\<close> are both \<open>[]byte\<close>.\<close>

type_synonym AccAddress = bytes
type_synonym HexBytes = bytes

text \<open>\<open>sdk.Coins\<close> is \<open>[]sdk.Coin\<close>; a coin is a denomination and an amount.\<close>

record Coin =
  Denom :: string
  Amount :: int

type_synonym Coins = "Coin list"

text \<open>
  The errors the modelled functions return. The first two are the SDK's own
  (\<open>sdkerrors.ErrInvalidAddress\<close>, \<open>sdkerrors.ErrInvalidRequest\<close>), the next are the
  module's registered error kinds, \<open>ErrorsNew\<close> and \<open>FmtErrorf\<close> are the unregistered
  errors made by \<open>errors.New\<close> and \<open>fmt.Errorf\<close> (with their message), the two
  after them are the errors of \<open>json.Unmarshal\<close>, and \<open>RuntimePanic\<close> is an
  index-out-of-range panic. A Go \<open>error\<close> result is an
  \<open>error option\<close>, \<open>None\<close> being \<open>nil\<close>.
\<close>

datatype error =
    SdkErrInvalidAddress
  | SdkErrInvalidRequest
  | ErrInvalidServiceName
  | ErrInvalidProviders
  | ErrInvalidRequestInput
  | ErrInvalidResponse
  | ErrInvalidTimeout
  | ErrInvalidRepeatedFreq
  | ErrInvalidRepeatedTotal
  | ErrorsNew string
  | FmtErrorf string
  | JsonSyntaxError
  | JsonUnmarshalTypeError
  | RuntimePanic

text \<open>\<open>type RequestContextState byte\<close> and \<open>type RequestContextBatchState byte\<close>.\<close>

type_synonym RequestContextState = byte
type_synonym RequestContextBatchState = byte

definition RUNNING :: RequestContextState where "RUNNING = 0x00"
definition PAUSED :: RequestContextState where "PAUSED = 0x01"
definition COMPLETED :: RequestContextState where "COMPLETED = 0x02"

definition BATCHRUNNING :: RequestContextBatchState where "BATCHRUNNING = 0x00"
definition BATCHCOMPLETED :: RequestContextBatchState where "BATCHCOMPLETED = 0x01"

record RequestContext =
  ServiceName :: string
  Providers :: "AccAddress list"
  Consumer :: AccAddress
  ServiceFeeCap :: Coins
  Input :: string
  ModuleName :: string
  Timeout :: int64
  RepeatedFrequency :: uint64
  RepeatedTotal :: int64
  BatchCounter :: uint64
  BatchRequestCount :: uint16
  BatchResponseCount :: uint16
  BatchResponseThreshold :: uint16
  ResponseThreshold :: uint16
  SuperMode :: bool
  Repeated :: bool
  BatchState :: RequestContextBatchState
  State :: RequestContextState

text \<open>\<open>func (rc RequestContext) Empty() bool\<close>\<close>

definition RequestContext_Empty :: "RequestContext \<Rightarrow> bool" where
  "RequestContext_Empty rc = (length (Consumer rc) = 0)"


section \<open>Identifier codec\<close>

text \<open>
  \<open>binary.BigEndian\<close> of the Go standard library. \<open>PutUint64(b, v)\<close> stores
  \<open>byte(v >> 56)\<close>, ..., \<open>byte(v)\<close> in \<open>b[0]\<close>, ..., \<open>b[7]\<close>; the model returns the
  eight bytes written. \<open>Uint64(b)\<close> reads \<open>b[0]\<close>, ..., \<open>b[7]\<close> and panics on a
  shorter slice (\<open>None\<close>). \<open>PutUint16\<close> and \<open>Uint16\<close> do the same with two bytes.
\<close>

definition BigEndian_PutUint64 :: "uint64 \<Rightarrow> bytes" where
  "BigEndian_PutUint64 v =
     [ucast (drop_bit 56 v), ucast (drop_bit 48 v), ucast (drop_bit 40 v),
      ucast (drop_bit 32 v), ucast (drop_bit 24 v), ucast (drop_bit 16 v),
      ucast (drop_bit 8 v), ucast v]"

fun BigEndian_Uint64 :: "bytes \<Rightarrow> uint64 option" where
  "BigEndian_Uint64 (b0 # b1 # b2 # b3 # b4 # b5 # b6 # b7 # _) =
     Some (ucast b7 OR push_bit 8 (ucast b6) OR push_bit 16 (ucast b5) OR
           push_bit 24 (ucast b4) OR push_bit 32 (ucast b3) OR push_bit 40 (ucast b2) OR
           push_bit 48 (ucast b1) OR push_bit 56 (ucast b0))"
| "BigEndian_Uint64 _ = None"

definition BigEndian_PutUint16 :: "uint16 \<Rightarrow> bytes" where
  "BigEndian_PutUint16 v = [ucast (drop_bit 8 v), ucast v]"

fun BigEndian_Uint16 :: "bytes \<Rightarrow> uint16 option" where
  "BigEndian_Uint16 (b0 # b1 # _) = Some (ucast b1 OR push_bit 8 (ucast b0))"
| "BigEndian_Uint16 _ = None"

text \<open>
  The slice expression \<open>b[lo:hi]\<close>. Go panics when \<open>hi\<close> exceeds the capacity; both
  callers below check the length first.
\<close>

definition go_slice :: "'a list \<Rightarrow> nat \<Rightarrow> nat \<Rightarrow> 'a list" where
  "go_slice b lo hi = take (hi - lo) (drop lo b)"

definition RequestIDLen :: nat where "RequestIDLen = 58"
definition ContextIDLen :: nat where "ContextIDLen = 40"

text \<open>
  \<open>GenerateRequestContextID\<close>: \<open>bz\<close> is a fresh 8-byte buffer filled by
  \<open>PutUint64(bz, uint64(msgIndex))\<close>; the result is \<open>append(txHash, bz...)\<close>. This
  definition gives the bytes of the returned slice as they read when the call returns.
  \<open>append\<close> does not always allocate: where the returned slice lives is modelled by
  \<open>GenerateRequestContextID_mem\<close> below.
\<close>

definition GenerateRequestContextID :: "bytes \<Rightarrow> int64 \<Rightarrow> HexBytes" where
  "GenerateRequestContextID txHash msgIndex =
     (let bz = BigEndian_PutUint64 msgIndex in txHash @ bz)"

definition SplitRequestContextID :: "HexBytes \<Rightarrow> error + (HexBytes \<times> int64)" where
  "SplitRequestContextID contextID =
     (if length contextID \<noteq> ContextIDLen then Inl (ErrorsNew ''invalid request context ID'')
      else
        let txHash = go_slice contextID 0 32 in
        case BigEndian_Uint64 (go_slice contextID 32 40) of
          None \<Rightarrow> Inl RuntimePanic
        | Some msgIndex \<Rightarrow> Inr (txHash, msgIndex))"

text \<open>
  \<open>GenerateRequestID\<close>: \<open>contextID\<close> is a copy of the argument; \<open>bz\<close> is a fresh
  18-byte buffer whose bytes 0..7, 8..15 and 16..17 are written by \<open>PutUint64(bz, ...)\<close>,
  \<open>PutUint64(bz[8:], ...)\<close> and \<open>PutUint16(bz[16:], ...)\<close>; the result is
  \<open>append(contextID, bz...)\<close>.
\<close>

definition GenerateRequestID :: "HexBytes \<Rightarrow> uint64 \<Rightarrow> int64 \<Rightarrow> int16 \<Rightarrow> HexBytes" where
  "GenerateRequestID requestContextID requestContextBatchCounter requestHeight batchRequestIndex =
     (let contextID = requestContextID;
          bz = BigEndian_PutUint64 requestContextBatchCounter @
               BigEndian_PutUint64 requestHeight @
               BigEndian_PutUint16 batchRequestIndex
      in contextID @ bz)"

definition SplitRequestID :: "HexBytes \<Rightarrow> error + (HexBytes \<times> uint64 \<times> int64 \<times> int16)" where
  "SplitRequestID requestID =
     (if length requestID \<noteq> RequestIDLen then Inl (ErrorsNew ''invalid request ID'')
      else
        let contextID = go_slice requestID 0 40 in
        case BigEndian_Uint64 (go_slice requestID 40 48) of
          None \<Rightarrow> Inl RuntimePanic
        | Some batchCounter \<Rightarrow>
            (case BigEndian_Uint64 (go_slice requestID 48 56) of
               None \<Rightarrow> Inl RuntimePanic
             | Some requestHeight \<Rightarrow>
                 (case BigEndian_Uint16 (drop 56 requestID) of
                    None \<Rightarrow> Inl RuntimePanic
                  | Some batchRequestIndex \<Rightarrow>
                      Inr (contextID, batchCounter, requestHeight, batchRequestIndex))))"


subsection \<open>Slices and their backing arrays\<close>

text \<open>
  A Go slice is a view of a backing array: the array, the index of the slice's first
  element in it, a length and a capacity. The memory is the list of the backing arrays
  allocated so far; allocating adds one at the end.
\<close>

record slice =
  s_arr :: nat
  s_off :: nat
  s_len :: nat
  s_cap :: nat

type_synonym memory = "bytes list"

definition slice_ok :: "memory \<Rightarrow> slice \<Rightarrow> bool" where
  "slice_ok m s =
     (s_arr s < length m \<and> s_len s \<le> s_cap s \<and> s_off s + s_cap s \<le> length (m ! s_arr s))"

text \<open>The bytes a slice shows in a memory.\<close>

definition contents :: "memory \<Rightarrow> slice \<Rightarrow> bytes" where
  "contents m s = take (s_len s) (drop (s_off s) (m ! s_arr s))"

definition write_at :: "bytes \<Rightarrow> nat \<Rightarrow> bytes \<Rightarrow> bytes" where
  "write_at a i bs = take i a @ bs @ drop (i + length bs) a"

text \<open>\<open>make([]byte, n)\<close>: a new zeroed array and the slice of all of it.\<close>

definition make_bytes :: "memory \<Rightarrow> nat \<Rightarrow> memory \<times> slice" where
  "make_bytes m n =
     (m @ [replicate n 0], \<lparr>s_arr = length m, s_off = 0, s_len = n, s_cap = n\<rparr>)"

text \<open>Storing bytes from a slice's first element on, as \<open>PutUint64(bz, v)\<close> does with eight.\<close>

definition store_bytes :: "memory \<Rightarrow> slice \<Rightarrow> bytes \<Rightarrow> memory" where
  "store_bytes m s bs = m[s_arr s := write_at (m ! s_arr s) (s_off s) bs]"

text \<open>
  \<open>append(s, xs...)\<close>. When the capacity of \<open>s\<close> suffices, the new elements are written
  into the backing array of \<open>s\<close>, after its last element, and the result is a longer view
  of the same array. Otherwise a new array is allocated, filled with the elements of
  \<open>s\<close> and the new ones, and the result is a view of it. The capacity of a new array is
  chosen by the Go runtime: \<open>grow\<close> stands for that choice (from the old capacity and
  the length needed), it is never less than the length needed.
\<close>

definition go_append :: "(nat \<Rightarrow> nat \<Rightarrow> nat) \<Rightarrow> memory \<Rightarrow> slice \<Rightarrow> bytes \<Rightarrow> memory \<times> slice" where
  "go_append grow m s xs =
     (let n = s_len s + length xs in
      if n \<le> s_cap s then
        (m[s_arr s := write_at (m ! s_arr s) (s_off s + s_len s) xs], s\<lparr>s_len := n\<rparr>)
      else
        let c = max n (grow (s_cap s) n) in
        (m @ [contents m s @ xs @ replicate (c - n) 0],
         \<lparr>s_arr = length m, s_off = 0, s_len = n, s_cap = c\<rparr>))"

text \<open>
  \<open>GenerateRequestContextID\<close> on slices: the memory after the call and the slice
  returned. \<open>txHash\<close> is appended to as it is, with no copy made first.
\<close>

definition GenerateRequestContextID_mem ::
  "(nat \<Rightarrow> nat \<Rightarrow> nat) \<Rightarrow> memory \<Rightarrow> slice \<Rightarrow> int64 \<Rightarrow> memory \<times> slice" where
  "GenerateRequestContextID_mem grow m txHash msgIndex =
     (let (m1, bz) = make_bytes m 8;
          m2 = store_bytes m1 bz (BigEndian_PutUint64 msgIndex)
      in go_append grow m2 txHash (contents m2 bz))"


section \<open>Request context states and their JSON form\<close>

text \<open>
  \<open>strings.ToLower\<close> belongs to the Go standard library and maps every Unicode letter; the
  functions below take it as the parameter \<open>lower\<close>. \<open>ToLower_ascii\<close> is what it
  returns for a string of ASCII bytes (its first branch: \<open>'A'..'Z'\<close> are shifted by
  \<open>'a' - 'A'\<close>, every other byte is kept); it is used to evaluate the functions on
  concrete ASCII input.
\<close>

definition ToLower_ascii :: "string \<Rightarrow> string" where
  "ToLower_ascii str =
     map (\<lambda>c. if (65::nat) \<le> of_char c \<and> of_char c \<le> (90::nat)
              then char_of (of_char c + (32::nat)) else c) str"

definition StringToRequestContextStateMap :: "string \<rightharpoonup> RequestContextState" where
  "StringToRequestContextStateMap =
     [''running'' \<mapsto> RUNNING, ''paused'' \<mapsto> PAUSED, ''completed'' \<mapsto> COMPLETED]"

definition StringToRequestContextBatchStateMap :: "string \<rightharpoonup> RequestContextBatchState" where
  "StringToRequestContextBatchStateMap =
     [''running'' \<mapsto> BATCHRUNNING, ''completed'' \<mapsto> BATCHCOMPLETED]"

text \<open>Both \<open>FromString\<close> functions return a state and an error; on failure the state is
  \<open>0xff\<close> and the message quotes the string between two \<open>'\<close> (\<open>CHR 0x27\<close>).\<close>

definition RequestContextStateFromString ::
  "(string \<Rightarrow> string) \<Rightarrow> string \<Rightarrow> RequestContextState \<times> error option" where
  "RequestContextStateFromString lower str =
     (case StringToRequestContextStateMap (lower str) of
        Some state \<Rightarrow> (state, None)
      | None \<Rightarrow> (0xff, Some (FmtErrorf (CHR 0x27 # str @ CHR 0x27 # '' is not a valid request context state''))))"

definition RequestContextBatchStateFromString ::
  "(string \<Rightarrow> string) \<Rightarrow> string \<Rightarrow> RequestContextBatchState \<times> error option" where
  "RequestContextBatchStateFromString lower str =
     (case StringToRequestContextBatchStateMap (lower str) of
        Some state \<Rightarrow> (state, None)
      | None \<Rightarrow>
          (0xff, Some (FmtErrorf (CHR 0x27 # str @ CHR 0x27 # '' is not a valid request context batch state''))))"

text \<open>
  The \<open>data\<close> handed to \<open>UnmarshalJSON\<close>, as \<open>encoding/json\<close> reads it: text that is not
  JSON, or one JSON value. Only a string's decoded content matters to the code below.
\<close>

datatype json_data =
    JSONMalformed
  | JSONNull
  | JSONBool bool
  | JSONNumber
  | JSONString string
  | JSONArray
  | JSONObject

text \<open>
  \<open>json.Unmarshal(data, &s)\<close> for a \<open>string\<close> variable holding \<open>s\<close>: the error, or
  the variable's new content. A JSON string is stored. The literal \<open>null\<close> is accepted
  and stores nothing (the package's documentation: unmarshalling a JSON null into a Go
  type other than an interface, map, pointer or slice has no effect on the value and
  produces no error). Text that is not JSON gives a syntax error and any other value an
  \<open>UnmarshalTypeError\<close>.
\<close>

fun json_Unmarshal_string :: "json_data \<Rightarrow> string \<Rightarrow> error + string" where
  "json_Unmarshal_string (JSONString v) s = Inr v"
| "json_Unmarshal_string JSONNull s = Inr s"
| "json_Unmarshal_string JSONMalformed s = Inl JsonSyntaxError"
| "json_Unmarshal_string _ s = Inl JsonUnmarshalTypeError"

text \<open>
  \<open>func (state *RequestContextState) UnmarshalJSON(data []byte) error\<close>: the result is
  the returned error and the receiver's value afterwards. \<open>var s string\<close> starts empty.
\<close>

definition RequestContextState_UnmarshalJSON ::
  "(string \<Rightarrow> string) \<Rightarrow> json_data \<Rightarrow> RequestContextState \<Rightarrow> error option \<times> RequestContextState" where
  "RequestContextState_UnmarshalJSON lower data state =
     (case json_Unmarshal_string data [] of
        Inl err \<Rightarrow> (None, state)
      | Inr s \<Rightarrow>
          (case RequestContextStateFromString lower s of
             (bz, Some err) \<Rightarrow> (Some err, state)
           | (bz, None) \<Rightarrow> (None, bz)))"

definition RequestContextBatchState_UnmarshalJSON ::
  "(string \<Rightarrow> string) \<Rightarrow> json_data \<Rightarrow> RequestContextBatchState \<Rightarrow>
   error option \<times> RequestContextBatchState" where
  "RequestContextBatchState_UnmarshalJSON lower data state =
     (case json_Unmarshal_string data [] of
        Inl err \<Rightarrow> (None, state)
      | Inr s \<Rightarrow>
          (case RequestContextBatchStateFromString lower s of
             (bz, Some err) \<Rightarrow> (Some err, state)
           | (bz, None) \<Rightarrow> (None, bz)))"


section \<open>Validation rules\<close>

definition MaxNameLength :: nat where "MaxNameLength = 70"
definition MaxProvidersNum :: nat where "MaxProvidersNum = 10"

subsection \<open>The service name pattern\<close>

text \<open>
  The patterns of this module are a \<open>^\<close>, a sequence of character classes, each one
  possibly starred, and a \<open>$\<close>. Without the \<open>m\<close> flag Go's \<open>^\<close> and \<open>$\<close> match only
  at the beginning and at the end of the text, so \<open>MatchString\<close> holds exactly when the
  whole string matches the sequence. A class lists ranges \<open>a-z\<close> and single characters.
  All members of the classes used here are ASCII, and no byte of a multi-byte or invalid
  UTF-8 sequence is ASCII, so matching byte by byte agrees with Go's matching by runes.
\<close>

datatype class_item = Range char char | Single char

datatype re_item = One "class_item list" | Many "class_item list"

type_synonym Regexp = "re_item list"

fun in_item :: "char \<Rightarrow> class_item \<Rightarrow> bool" where
  "in_item c (Range lo hi) = ((of_char lo :: nat) \<le> of_char c \<and> (of_char c :: nat) \<le> of_char hi)"
| "in_item c (Single d) = (c = d)"

definition in_class :: "class_item list \<Rightarrow> char \<Rightarrow> bool" where
  "in_class items c = list_ex (in_item c) items"

fun MatchString :: "Regexp \<Rightarrow> string \<Rightarrow> bool" where
  "MatchString [] s = (s = [])"
| "MatchString (One cl # re) [] = False"
| "MatchString (One cl # re) (c # cs) = (in_class cl c \<and> MatchString re cs)"
| "MatchString (Many cl # re) [] = MatchString re []"
| "MatchString (Many cl # re) (c # cs) =
     (MatchString re (c # cs) \<or> (in_class cl c \<and> MatchString (Many cl # re) cs))"

text \<open>\<open>var reServiceName = regexp.MustCompile(`^[a-zA-Z][a-zA-Z0-9_-]*$`)\<close>\<close>

definition reServiceName :: Regexp where
  "reServiceName =
     [One [Range CHR ''a'' CHR ''z'', Range CHR ''A'' CHR ''Z''],
      Many [Range CHR ''a'' CHR ''z'', Range CHR ''A'' CHR ''Z'', Range CHR ''0'' CHR ''9'',
            Single CHR ''_'', Single CHR ''-'']]"

text \<open>
  The pattern as the specification writes it, \<open>^[A-Za-z][A-Za-z0-9_-]*$\<close>, to be
  compared with the module's.
\<close>

definition spec_service_name_pattern :: Regexp where
  "spec_service_name_pattern =
     [One [Range CHR ''A'' CHR ''Z'', Range CHR ''a'' CHR ''z''],
      Many [Range CHR ''A'' CHR ''Z'', Range CHR ''a'' CHR ''z'', Range CHR ''0'' CHR ''9'',
            Single CHR ''_'', Single CHR ''-'']]"

definition ValidateServiceName :: "string \<Rightarrow> error option" where
  "ValidateServiceName name =
     (if \<not> MatchString reServiceName name \<or> length name > MaxNameLength
      then Some ErrInvalidServiceName
      else None)"

subsection \<open>Library functions the validators call\<close>

text \<open>
  The validators call three functions of other packages, taken as parameters:
  \<open>json.Valid\<close> (is the text valid JSON), \<open>sdk.Coins.IsValid\<close> and
  \<open>sdk.AccAddress.String\<close> (the address's Bech32 text).
\<close>

record extern =
  json_Valid :: "string \<Rightarrow> bool"
  Coins_IsValid :: "Coins \<Rightarrow> bool"
  AccAddress_String :: "AccAddress \<Rightarrow> string"

text \<open>
  Modelled from the spec: \<open>HasDuplicate\<close> is a helper of this module that is not among
  the sources. The specification's provider and tag rules say "no duplicates" and
  "no duplicate addresses (address string equality)": it holds when two entries of the
  list are equal strings.
\<close>

definition HasDuplicate :: "string list \<Rightarrow> bool" where
  "HasDuplicate arr = (\<not> distinct arr)"

subsection \<open>Validators\<close>

definition checkDuplicateProviders :: "extern \<Rightarrow> AccAddress list \<Rightarrow> error option" where
  "checkDuplicateProviders ext providers =
     (let providerArr = map (AccAddress_String ext) providers in
      if HasDuplicate providerArr then Some ErrInvalidProviders else None)"

definition ValidateProvidersNoEmpty :: "extern \<Rightarrow> AccAddress list \<Rightarrow> error option" where
  "ValidateProvidersNoEmpty ext providers =
     (if length providers = 0 then Some SdkErrInvalidRequest
      else if length providers > MaxProvidersNum then Some SdkErrInvalidRequest
      else case checkDuplicateProviders ext providers of
             Some err \<Rightarrow> Some err
           | None \<Rightarrow> None)"

definition ValidateProvidersCanEmpty :: "extern \<Rightarrow> AccAddress list \<Rightarrow> error option" where
  "ValidateProvidersCanEmpty ext providers =
     (if length providers > MaxProvidersNum then Some ErrInvalidProviders
      else if length providers > 0 then
        (case checkDuplicateProviders ext providers of
           Some err \<Rightarrow> Some err
         | None \<Rightarrow> None)
      else None)"

definition ValidateServiceFeeCap :: "extern \<Rightarrow> Coins \<Rightarrow> error option" where
  "ValidateServiceFeeCap ext serviceFeeCap =
     (if \<not> Coins_IsValid ext serviceFeeCap then Some SdkErrInvalidRequest else None)"

definition ValidateInput :: "extern \<Rightarrow> string \<Rightarrow> error option" where
  "ValidateInput ext input =
     (if length input = 0 then Some ErrInvalidRequestInput
      else if \<not> json_Valid ext input then Some ErrInvalidRequestInput
      else None)"

definition ValidateOutput :: "extern \<Rightarrow> uint16 \<Rightarrow> string \<Rightarrow> error option" where
  "ValidateOutput ext code output =
     (if code = 200 \<and> length output = 0 then Some ErrInvalidResponse
      else if code \<noteq> 200 \<and> length output \<noteq> 0 then Some ErrInvalidResponse
      else if length output > 0 \<and> \<not> json_Valid ext output then Some ErrInvalidResponse
      else None)"

text \<open>
  \<open>ValidateRequest\<close>. \<open>timeout <= 0\<close> and \<open>repeatedTotal < -1\<close> compare \<open>int64\<close>
  values (\<open>sint\<close>); \<open>repeatedFrequency < uint64(timeout)\<close> compares \<open>uint64\<close> values,
  the order of words.
\<close>

definition ValidateRequest ::
  "extern \<Rightarrow> string \<Rightarrow> Coins \<Rightarrow> AccAddress list \<Rightarrow> string \<Rightarrow> int64 \<Rightarrow> bool \<Rightarrow> uint64 \<Rightarrow> int64 \<Rightarrow>
   error option" where
  "ValidateRequest ext serviceName serviceFeeCap providers input timeout repeated
     repeatedFrequency repeatedTotal =
     (case ValidateServiceName serviceName of
        Some err \<Rightarrow> Some err
      | None \<Rightarrow>
     (case ValidateServiceFeeCap ext serviceFeeCap of
        Some err \<Rightarrow> Some err
      | None \<Rightarrow>
     (case ValidateProvidersNoEmpty ext providers of
        Some err \<Rightarrow> Some err
      | None \<Rightarrow>
     (case ValidateInput ext input of
        Some err \<Rightarrow> Some err
      | None \<Rightarrow>
     (if sint timeout \<le> 0 then Some ErrInvalidTimeout
      else if repeated then
        (if repeatedFrequency > 0 \<and> repeatedFrequency < timeout
         then Some ErrInvalidRepeatedFreq
         else if sint repeatedTotal < - 1 \<or> repeatedTotal = 0
         then Some ErrInvalidRepeatedTotal
         else None)
      else None)))))"

text \<open>\<open>ValidateRequestContextUpdating\<close>; \<open>serviceFeeCap.Empty()\<close> is \<open>len(coins) == 0\<close>.\<close>

definition ValidateRequestContextUpdating ::
  "extern \<Rightarrow> AccAddress list \<Rightarrow> Coins \<Rightarrow> int64 \<Rightarrow> uint64 \<Rightarrow> int64 \<Rightarrow> error option" where
  "ValidateRequestContextUpdating ext providers serviceFeeCap timeout repeatedFrequency
     repeatedTotal =
     (case ValidateProvidersCanEmpty ext providers of
        Some err \<Rightarrow> Some err
      | None \<Rightarrow>
     (case (if length serviceFeeCap \<noteq> 0 then ValidateServiceFeeCap ext serviceFeeCap else None) of
        Some err \<Rightarrow> Some err
      | None \<Rightarrow>
     (if sint timeout < 0 then Some ErrInvalidTimeout
      else if timeout \<noteq> 0 \<and> repeatedFrequency \<noteq> 0 \<and> repeatedFrequency < timeout
      then Some ErrInvalidRepeatedFreq
      else if sint repeatedTotal < - 1 then Some ErrInvalidRepeatedFreq
      else None)))"


subsection \<open>Sample library functions\<close>

text \<open>
  Stand-ins for the three library functions, used to run the validators on concrete
  inputs: the JSON texts it knows are \<open>{}\<close> and \<open>{"x":1}\<close>, a coin set is valid when
  every amount is positive, and an address is written as the characters of its bytes.
\<close>

definition sample_extern :: extern where
  "sample_extern =
     \<lparr>json_Valid = (\<lambda>s. s = ''{}'' \<or> s = ''{\"x\":1}''),
      Coins_IsValid = list_all (\<lambda>c. 0 < Amount c),
      AccAddress_String = map (\<lambda>b. char_of (unat b))\<rparr>"


section \<open>Properties of the identifier codec\<close>

lemma bit_be_byte0:
  "bit (ucast (ucast v :: byte) :: 'a::len word) n \<longleftrightarrow> n < 8 \<and> bit v n"
  for v :: "'a::len word"
  using bit_imp_le_length [of v n] by (auto simp add: bit_simps)

lemma bit_be_byte:
  "bit (push_bit k (ucast (ucast (drop_bit k v) :: byte)) :: 'a::len word) n \<longleftrightarrow>
     k \<le> n \<and> n < k + 8 \<and> bit v n"
  for v :: "'a::len word"
  using bit_imp_le_length [of v n] by (auto simp add: bit_simps)

lemma Uint64_PutUint64: "BigEndian_Uint64 (BigEndian_PutUint64 v @ rest) = Some v"
proof -
  have "ucast (ucast v :: byte) OR push_bit 8 (ucast (ucast (drop_bit 8 v) :: byte)) OR
        push_bit 16 (ucast (ucast (drop_bit 16 v) :: byte)) OR
        push_bit 24 (ucast (ucast (drop_bit 24 v) :: byte)) OR
        push_bit 32 (ucast (ucast (drop_bit 32 v) :: byte)) OR
        push_bit 40 (ucast (ucast (drop_bit 40 v) :: byte)) OR
        push_bit 48 (ucast (ucast (drop_bit 48 v) :: byte)) OR
        push_bit 56 (ucast (ucast (drop_bit 56 v) :: byte)) = v" (is "?w = v")
  proof (rule bit_word_eqI)
    fix n assume n: "n < LENGTH(64)"
    have "n < 8 \<or> (8 \<le> n \<and> n < 16) \<or> (16 \<le> n \<and> n < 24) \<or> (24 \<le> n \<and> n < 32) \<or>
          (32 \<le> n \<and> n < 40) \<or> (40 \<le> n \<and> n < 48) \<or> (48 \<le> n \<and> n < 56) \<or>
          (56 \<le> n \<and> n < 64)"
      using n by simp arith
    then show "bit ?w n = bit v n"
      unfolding bit_or_iff bit_be_byte bit_be_byte0 by auto
  qed
  then show ?thesis
    by (simp add: BigEndian_PutUint64_def)
qed

lemma Uint16_PutUint16: "BigEndian_Uint16 (BigEndian_PutUint16 v @ rest) = Some v"
proof -
  have "ucast (ucast v :: byte) OR push_bit 8 (ucast (ucast (drop_bit 8 v) :: byte)) = v"
    (is "?w = v")
  proof (rule bit_word_eqI)
    fix n assume n: "n < LENGTH(16)"
    then have "n < 8 \<or> (8 \<le> n \<and> n < 16)"
      by simp arith
    then show "bit ?w n = bit v n"
      unfolding bit_or_iff bit_be_byte bit_be_byte0 by auto
  qed
  then show ?thesis
    by (simp add: BigEndian_PutUint16_def)
qed

lemma length_PutUint64 [simp]: "length (BigEndian_PutUint64 v) = 8"
  by (simp add: BigEndian_PutUint64_def)

lemma length_PutUint16 [simp]: "length (BigEndian_PutUint16 v) = 2"
  by (simp add: BigEndian_PutUint16_def)

lemma PutUint64_inject: "BigEndian_PutUint64 v = BigEndian_PutUint64 w \<Longrightarrow> v = w"
proof -
  assume "BigEndian_PutUint64 v = BigEndian_PutUint64 w"
  then have "BigEndian_Uint64 (BigEndian_PutUint64 v @ []) =
             BigEndian_Uint64 (BigEndian_PutUint64 w @ [])"
    by simp
  then show "v = w"
    unfolding Uint64_PutUint64 by simp
qed

lemma PutUint16_inject: "BigEndian_PutUint16 v = BigEndian_PutUint16 w \<Longrightarrow> v = w"
proof -
  assume "BigEndian_PutUint16 v = BigEndian_PutUint16 w"
  then have "BigEndian_Uint16 (BigEndian_PutUint16 v @ []) =
             BigEndian_Uint16 (BigEndian_PutUint16 w @ [])"
    by simp
  then show "v = w"
    unfolding Uint16_PutUint16 by simp
qed

text \<open>
  C2. For every 32-byte transaction hash \<open>h\<close> and every \<open>int64\<close> message index \<open>i\<close>,
  splitting the context ID generated from \<open>(h, i)\<close> succeeds (no error, no panic) and
  returns exactly \<open>(h, i)\<close>.
\<close>

theorem context_id_roundtrip:
  assumes "length h = 32"
  shows "SplitRequestContextID (GenerateRequestContextID h i) = Inr (h, i)"
proof -
  have len: "length (GenerateRequestContextID h i) = ContextIDLen"
    using assms by (simp add: GenerateRequestContextID_def ContextIDLen_def)
  have hash: "go_slice (GenerateRequestContextID h i) 0 32 = h"
    using assms by (simp add: GenerateRequestContextID_def go_slice_def)
  have idx: "go_slice (GenerateRequestContextID h i) 32 40 = BigEndian_PutUint64 i"
    using assms by (simp add: GenerateRequestContextID_def go_slice_def)
  have "BigEndian_Uint64 (BigEndian_PutUint64 i @ []) = Some i"
    by (rule Uint64_PutUint64)
  then show ?thesis
    unfolding SplitRequestContextID_def by (simp add: len hash idx)
qed

theorem context_id_roundtrip_witness:
  "SplitRequestContextID (GenerateRequestContextID (replicate 32 0xAB) (- 2)) =
     Inr (replicate 32 0xAB, - 2)"
  using context_id_roundtrip [of "replicate 32 0xAB" "- 2"] by simp

text \<open>
  C3. For every 40-byte context ID \<open>c\<close>, every \<open>uint64\<close> batch counter \<open>b\<close>, every
  \<open>int64\<close> request height \<open>ht\<close> and every \<open>int16\<close> batch index \<open>idx\<close>, splitting
  the request ID generated from them succeeds and returns exactly \<open>(c, b, ht, idx)\<close>.
\<close>

theorem request_id_roundtrip:
  assumes "length c = 40"
  shows "SplitRequestID (GenerateRequestID c b ht idx) = Inr (c, b, ht, idx)"
proof -
  let ?id = "GenerateRequestID c b ht idx"
  have id: "?id = c @ BigEndian_PutUint64 b @ BigEndian_PutUint64 ht @ BigEndian_PutUint16 idx"
    by (simp add: GenerateRequestID_def)
  have len: "length ?id = RequestIDLen"
    using assms by (simp add: id RequestIDLen_def)
  have ctx: "go_slice ?id 0 40 = c"
    using assms by (simp add: id go_slice_def)
  have cnt: "go_slice ?id 40 48 = BigEndian_PutUint64 b @ []"
    using assms by (simp add: id go_slice_def)
  have hgt: "go_slice ?id 48 56 = BigEndian_PutUint64 ht @ []"
    using assms by (simp add: id go_slice_def)
  have ix: "drop 56 ?id = BigEndian_PutUint16 idx @ []"
    using assms by (simp add: id)
  show ?thesis
    unfolding SplitRequestID_def cnt hgt ix Uint64_PutUint64 Uint16_PutUint16
    by (simp add: len ctx)
qed

theorem request_id_roundtrip_witness:
  "SplitRequestID (GenerateRequestID (replicate 40 0x5C) 7 (- 1) (- 3)) =
     Inr (replicate 40 0x5C, 7, - 1, - 3)"
  using request_id_roundtrip [of "replicate 40 0x5C" 7 "- 1" "- 3"] by simp

text \<open>
  The bytes the two generators return, as they read when the call returns, determine
  the arguments: for 32-byte hashes, distinct pairs of hash and message index give
  distinct bytes, and distinct batch-local indices give distinct request ID bytes.
\<close>

lemma generated_bytes_injective:
  "(length h1 = 32 \<and> length h2 = 32 \<and> (h1, i1) \<noteq> (h2, i2) \<longrightarrow>
      GenerateRequestContextID h1 i1 \<noteq> GenerateRequestContextID h2 i2) \<and>
   (idx1 \<noteq> idx2 \<longrightarrow> GenerateRequestID c b ht idx1 \<noteq> GenerateRequestID c b ht idx2)"
proof (intro conjI impI notI)
  assume h: "length h1 = 32 \<and> length h2 = 32 \<and> (h1, i1) \<noteq> (h2, i2)"
    and eq: "GenerateRequestContextID h1 i1 = GenerateRequestContextID h2 i2"
  from eq have "h1 @ BigEndian_PutUint64 i1 = h2 @ BigEndian_PutUint64 i2"
    by (simp add: GenerateRequestContextID_def)
  with h have "h1 = h2" and "BigEndian_PutUint64 i1 = BigEndian_PutUint64 i2"
    by simp_all
  then have "h1 = h2" and "i1 = i2"
    by (simp_all add: PutUint64_inject)
  with h show False by simp
next
  assume ne: "idx1 \<noteq> idx2"
    and eq: "GenerateRequestID c b ht idx1 = GenerateRequestID c b ht idx2"
  from eq have "BigEndian_PutUint16 idx1 = BigEndian_PutUint16 idx2"
    by (simp add: GenerateRequestID_def)
  then have "idx1 = idx2"
    by (rule PutUint16_inject)
  with ne show False by simp
qed

subsection \<open>Context IDs in memory\<close>

text \<open>
  The slice \<open>GenerateRequestContextID\<close> returns shows, in the memory after the call, the
  bytes \<open>GenerateRequestContextID\<close> computes from the bytes of \<open>txHash\<close>. When \<open>txHash\<close>
  has eight bytes of capacity left, the slice returned is \<open>txHash\<close> made longer, whatever
  the message index.
\<close>

lemma bz_contents:
  "contents (store_bytes (fst (make_bytes m 8)) (snd (make_bytes m 8)) (BigEndian_PutUint64 v))
     (snd (make_bytes m 8)) = BigEndian_PutUint64 v"
  by (simp add: make_bytes_def store_bytes_def contents_def write_at_def)

lemma GenerateRequestContextID_mem_eq:
  "GenerateRequestContextID_mem grow m h i =
     go_append grow (m @ [BigEndian_PutUint64 i]) h (BigEndian_PutUint64 i)"
  by (simp add: GenerateRequestContextID_mem_def make_bytes_def store_bytes_def contents_def
      write_at_def)

lemma GenerateRequestContextID_mem_in_place:
  assumes "s_len h + 8 \<le> s_cap h"
  shows "snd (GenerateRequestContextID_mem grow m h i) = h\<lparr>s_len := s_len h + 8\<rparr>"
  using assms by (simp add: GenerateRequestContextID_mem_eq go_append_def)

lemma GenerateRequestContextID_mem_contents:
  assumes "slice_ok m h"
  shows "contents (fst (GenerateRequestContextID_mem grow m h i))
           (snd (GenerateRequestContextID_mem grow m h i)) =
         GenerateRequestContextID (contents m h) i"
proof (cases "s_len h + 8 \<le> s_cap h")
  case True
  with assms show ?thesis
    by (auto simp add: GenerateRequestContextID_mem_eq go_append_def GenerateRequestContextID_def
        contents_def slice_ok_def write_at_def nth_append min_def take_add drop_take)
next
  case False
  from assms have "s_len h \<le> length (m ! s_arr h) - s_off h"
    unfolding slice_ok_def by arith
  with False assms show ?thesis
    by (simp add: GenerateRequestContextID_mem_eq go_append_def GenerateRequestContextID_def
        contents_def slice_ok_def nth_append Let_def)
qed

text \<open>
  C4. Distinct pairs of a transaction hash and a message index should give distinct
  context IDs. They do not when the hash is a 32-byte slice of capacity 40: the call
  for index 0 and the call for index 1 return the same eight bytes of the hash's backing
  array, the second call overwrites what the first stored, and afterwards the two IDs
  are equal, both reading as the ID of index 1. (\<open>GenerateRequestID\<close> copies its
  argument before appending, so its results never share memory.)
\<close>

theorem context_id_shared_buffer:
  "(let m0 = [replicate 32 0xAB @ replicate 8 0];
        txHash = \<lparr>s_arr = 0, s_off = 0, s_len = 32, s_cap = 40\<rparr>;
        (m1, id1) = GenerateRequestContextID_mem grow m0 txHash 0;
        (m2, id2) = GenerateRequestContextID_mem grow m1 txHash 1
    in contents m1 txHash = contents m0 txHash \<and>
       contents m1 id1 = GenerateRequestContextID (replicate 32 0xAB) 0 \<and>
       contents m2 id2 = GenerateRequestContextID (replicate 32 0xAB) 1 \<and>
       contents m2 id1 = contents m2 id2 \<and>
       contents m2 id1 \<noteq> contents m1 id1)"
  by (simp add: GenerateRequestContextID_mem_eq go_append_def GenerateRequestContextID_def
      contents_def write_at_def Let_def BigEndian_PutUint64_def)


section \<open>Properties of the validation rules\<close>

lemma uint_eq_sint_nonneg:
  fixes x :: "64 word"
  assumes "0 \<le> sint x"
  shows "uint x = sint x"
proof -
  have "sint x < 2 ^ 64"
    using sint_lt [of x] by simp
  with assms have "take_bit 64 (sint x) = sint x"
    by (simp add: take_bit_int_eq_self)
  then show ?thesis
    using uint_sint [of x] by simp
qed

lemma freq_below_timeout:
  fixes timeout freq :: "64 word"
  assumes "0 \<le> sint timeout"
  shows "freq < timeout \<longleftrightarrow> uint freq < sint timeout"
  using uint_eq_sint_nonneg [OF assms] by (simp add: word_less_def)

lemma word64_pos_iff: "0 < w \<longleftrightarrow> uint w \<noteq> 0" for w :: "64 word"
  by (simp add: word_greater_zero_iff uint_0_iff)

text \<open>
  C1. When the service name, the fee cap, the provider list and the input each pass
  their own validator, \<open>ValidateRequest\<close> accepts exactly when \<open>timeout > 0\<close> and, if
  the request is repeated, the frequency is 0 or at least the timeout and the total is
  \<open>-1\<close> or positive. The timeout and the total are read as \<open>int64\<close>, the frequency
  as \<open>uint64\<close>.
\<close>

theorem validate_request_accepts_iff:
  assumes "ValidateServiceName serviceName = None"
    and "ValidateServiceFeeCap ext serviceFeeCap = None"
    and "ValidateProvidersNoEmpty ext providers = None"
    and "ValidateInput ext input = None"
  shows "ValidateRequest ext serviceName serviceFeeCap providers input timeout repeated
           repeatedFrequency repeatedTotal = None \<longleftrightarrow>
         0 < sint timeout \<and>
         (repeated \<longrightarrow>
            (uint repeatedFrequency = 0 \<or> sint timeout \<le> uint repeatedFrequency) \<and>
            (sint repeatedTotal = - 1 \<or> 0 < sint repeatedTotal))"
proof (cases "0 < sint timeout")
  case False
  then show ?thesis
    using assms by (simp add: ValidateRequest_def)
next
  case True
  then have lt: "repeatedFrequency < timeout \<longleftrightarrow> uint repeatedFrequency < sint timeout"
    by (simp add: freq_below_timeout)
  have tot: "repeatedTotal = 0 \<longleftrightarrow> sint repeatedTotal = 0"
    by (simp add: signed_eq_0_iff)
  show ?thesis
    using assms True
    by (auto simp add: ValidateRequest_def lt tot word64_pos_iff)
qed

theorem validate_request_accepts_iff_witness:
  "ValidateServiceName ''oracle'' = None \<and>
   ValidateServiceFeeCap sample_extern [\<lparr>Denom = ''stake'', Amount = 5\<rparr>] = None \<and>
   ValidateProvidersNoEmpty sample_extern [[1, 2], [3]] = None \<and>
   ValidateInput sample_extern ''{}'' = None \<and>
   ValidateRequest sample_extern ''oracle'' [\<lparr>Denom = ''stake'', Amount = 5\<rparr>] [[1, 2], [3]] ''{}''
     100 True 100 (- 1) = None \<and>
   ValidateRequest sample_extern ''oracle'' [\<lparr>Denom = ''stake'', Amount = 5\<rparr>] [[1, 2], [3]] ''{}''
     100 True 99 (- 1) \<noteq> None \<and>
   ValidateRequest sample_extern ''oracle'' [\<lparr>Denom = ''stake'', Amount = 5\<rparr>] [[1, 2], [3]] ''{}''
     100 True 0 0 \<noteq> None \<and>
   ValidateRequest sample_extern ''oracle'' [\<lparr>Denom = ''stake'', Amount = 5\<rparr>] [[1, 2], [3]] ''{}''
     (- 5) False 0 0 \<noteq> None"
proof -
  have n: "ValidateServiceName ''oracle'' = None"
    by (simp add: ValidateServiceName_def reServiceName_def in_class_def MaxNameLength_def)
  have f: "ValidateServiceFeeCap sample_extern [\<lparr>Denom = ''stake'', Amount = 5\<rparr>] = None"
    by (simp add: ValidateServiceFeeCap_def sample_extern_def)
  have p: "ValidateProvidersNoEmpty sample_extern [[1, 2], [3]] = None"
    by (simp add: ValidateProvidersNoEmpty_def checkDuplicateProviders_def HasDuplicate_def
        MaxProvidersNum_def sample_extern_def)
  have i: "ValidateInput sample_extern ''{}'' = None"
    by (simp add: ValidateInput_def sample_extern_def)
  note t = validate_request_accepts_iff [OF n f p i]
  have a: "ValidateRequest sample_extern ''oracle'' [\<lparr>Denom = ''stake'', Amount = 5\<rparr>]
             [[1, 2], [3]] ''{}'' 100 True 100 (- 1) = None"
    using t [of 100 True 100 "- 1"] by simp
  have b: "ValidateRequest sample_extern ''oracle'' [\<lparr>Denom = ''stake'', Amount = 5\<rparr>]
             [[1, 2], [3]] ''{}'' 100 True 99 (- 1) \<noteq> None"
    using t [of 100 True 99 "- 1"] by simp
  have c: "ValidateRequest sample_extern ''oracle'' [\<lparr>Denom = ''stake'', Amount = 5\<rparr>]
             [[1, 2], [3]] ''{}'' 100 True 0 0 \<noteq> None"
    using t [of 100 True 0 0] by simp
  have d: "ValidateRequest sample_extern ''oracle'' [\<lparr>Denom = ''stake'', Amount = 5\<rparr>]
             [[1, 2], [3]] ''{}'' (- 5) False 0 0 \<noteq> None"
    using t [of "- 5" False 0 0] by simp
  from n f p i a b c d show ?thesis by blast
qed

lemma first_error_None:
  "(case a of Some err \<Rightarrow> Some err | None \<Rightarrow> b) = None \<longleftrightarrow> a = None \<and> b = None"
  by (cases a) simp_all

text \<open>
  C7. A rejected repeated total should carry \<open>ErrInvalidRepeatedTotal\<close>, as it does in
  \<open>ValidateRequest\<close>. In \<open>ValidateRequestContextUpdating\<close> the total \<open>-2\<close> (with no
  providers, no fee cap, timeout 0 and frequency 0) is rejected with
  \<open>ErrInvalidRepeatedFreq\<close> instead.
\<close>

theorem update_total_error_kind:
  "ValidateRequestContextUpdating ext [] [] 0 0 (- 2) = Some ErrInvalidRepeatedFreq \<and>
   ValidateRequestContextUpdating ext providers serviceFeeCap timeout repeatedFrequency
     repeatedTotal \<noteq> Some ErrInvalidRepeatedTotal"
  by (simp add: ValidateRequestContextUpdating_def ValidateProvidersCanEmpty_def
      checkDuplicateProviders_def ValidateServiceFeeCap_def)

lemma ValidateProvidersCanEmpty_None:
  "ValidateProvidersCanEmpty ext providers = None \<longleftrightarrow>
     length providers \<le> 10 \<and> distinct (map (AccAddress_String ext) providers)"
  by (auto simp add: ValidateProvidersCanEmpty_def checkDuplicateProviders_def HasDuplicate_def
      MaxProvidersNum_def)

lemma fee_cap_update_None:
  "(if length serviceFeeCap \<noteq> 0 then ValidateServiceFeeCap ext serviceFeeCap else None) = None \<longleftrightarrow>
     serviceFeeCap = [] \<or> Coins_IsValid ext serviceFeeCap"
  by (simp add: ValidateServiceFeeCap_def)

lemma update_numbers_None:
  fixes timeout repeatedFrequency repeatedTotal :: "64 word"
  shows "(if sint timeout < 0 then Some ErrInvalidTimeout
      else if timeout \<noteq> 0 \<and> repeatedFrequency \<noteq> 0 \<and> repeatedFrequency < timeout
      then Some ErrInvalidRepeatedFreq
      else if sint repeatedTotal < - 1 then Some ErrInvalidRepeatedFreq
      else None) = None \<longleftrightarrow>
     0 \<le> sint timeout \<and>
     (sint timeout = 0 \<or> uint repeatedFrequency = 0 \<or> sint timeout \<le> uint repeatedFrequency) \<and>
     - 1 \<le> sint repeatedTotal"
proof (cases "0 \<le> sint timeout")
  case False
  then show ?thesis by simp
next
  case True
  then have lt: "repeatedFrequency < timeout \<longleftrightarrow> uint repeatedFrequency < sint timeout"
    by (simp add: freq_below_timeout)
  have z: "timeout = 0 \<longleftrightarrow> sint timeout = 0" "repeatedFrequency = 0 \<longleftrightarrow> uint repeatedFrequency = 0"
    by (simp_all add: signed_eq_0_iff unsigned_eq_0_iff)
  show ?thesis
    using True by (auto simp add: lt z)
qed

text \<open>
  C6. \<open>ValidateRequestContextUpdating\<close> accepts exactly when there are at most 10
  providers, no two of them with the same address text, the fee cap is empty or valid,
  \<open>timeout \<ge> 0\<close>, the timeout or the frequency is 0 or the frequency is at least the
  timeout, and the total is at least \<open>-1\<close>. Where distinct addresses have distinct
  texts, "no two with the same address text" is "no duplicate addresses".
\<close>

theorem validate_update_accepts_iff:
  "(ValidateRequestContextUpdating ext providers serviceFeeCap timeout repeatedFrequency
      repeatedTotal = None \<longleftrightarrow>
      length providers \<le> 10 \<and> distinct (map (AccAddress_String ext) providers) \<and>
      (serviceFeeCap = [] \<or> Coins_IsValid ext serviceFeeCap) \<and>
      0 \<le> sint timeout \<and>
      (sint timeout = 0 \<or> uint repeatedFrequency = 0 \<or> sint timeout \<le> uint repeatedFrequency) \<and>
      - 1 \<le> sint repeatedTotal) \<and>
   (inj_on (AccAddress_String ext) (set providers) \<longrightarrow>
      (ValidateRequestContextUpdating ext providers serviceFeeCap timeout repeatedFrequency
         repeatedTotal = None \<longleftrightarrow>
         length providers \<le> 10 \<and> distinct providers \<and>
         (serviceFeeCap = [] \<or> Coins_IsValid ext serviceFeeCap) \<and>
         0 \<le> sint timeout \<and>
         (sint timeout = 0 \<or> uint repeatedFrequency = 0 \<or> sint timeout \<le> uint repeatedFrequency) \<and>
         - 1 \<le> sint repeatedTotal))"
proof -
  have main: "ValidateRequestContextUpdating ext providers serviceFeeCap timeout repeatedFrequency
      repeatedTotal = None \<longleftrightarrow>
      length providers \<le> 10 \<and> distinct (map (AccAddress_String ext) providers) \<and>
      (serviceFeeCap = [] \<or> Coins_IsValid ext serviceFeeCap) \<and>
      0 \<le> sint timeout \<and>
      (sint timeout = 0 \<or> uint repeatedFrequency = 0 \<or> sint timeout \<le> uint repeatedFrequency) \<and>
      - 1 \<le> sint repeatedTotal"
    by (simp only: ValidateRequestContextUpdating_def first_error_None
        ValidateProvidersCanEmpty_None fee_cap_update_None update_numbers_None conj_assoc)
  show ?thesis
    using main by (auto simp add: distinct_map)
qed

theorem validate_update_accepts_iff_witness:
  "inj_on (AccAddress_String sample_extern) (set [[1, 2], [3]]) \<and>
   ValidateRequestContextUpdating sample_extern [[1, 2], [3]] [] 0 0 0 = None \<and>
   ValidateRequestContextUpdating sample_extern [] [] 100 0 (- 1) = None \<and>
   ValidateRequestContextUpdating sample_extern [[3], [3]] [] 0 0 0 \<noteq> None \<and>
   ValidateRequestContextUpdating sample_extern [] [] 100 50 0 \<noteq> None \<and>
   ValidateRequestContextUpdating sample_extern [] [] (- 1) 0 0 \<noteq> None"
proof -
  have inj: "inj_on (AccAddress_String sample_extern) (set [[1, 2], [3]])"
    by (simp add: sample_extern_def)
  have s: "AccAddress_String sample_extern = map (\<lambda>b. char_of (unat b))"
    by (simp add: sample_extern_def)
  have a: "ValidateRequestContextUpdating sample_extern [[1, 2], [3]] [] 0 0 0 = None"
    using validate_update_accepts_iff [of sample_extern "[[1, 2], [3]]" "[]" 0 0 0] inj
    by simp
  have b: "ValidateRequestContextUpdating sample_extern [] [] 100 0 (- 1) = None"
    using validate_update_accepts_iff [of sample_extern "[]" "[]" 100 0 "- 1"] by simp
  have c: "ValidateRequestContextUpdating sample_extern [[3], [3]] [] 0 0 0 \<noteq> None"
    using validate_update_accepts_iff [of sample_extern "[[3], [3]]" "[]" 0 0 0] by simp
  have d: "ValidateRequestContextUpdating sample_extern [] [] 100 50 0 \<noteq> None"
    using validate_update_accepts_iff [of sample_extern "[]" "[]" 100 50 0] by simp
  have e: "ValidateRequestContextUpdating sample_extern [] [] (- 1) 0 0 \<noteq> None"
    using validate_update_accepts_iff [of sample_extern "[]" "[]" "- 1" 0 0] by simp
  from inj a b c d e show ?thesis by blast
qed

lemma MatchString_Many: "MatchString [Many cl] s = list_all (in_class cl) s"
  by (induction s) auto

lemma MatchString_One_Many:
  "MatchString [One a, Many b] s =
     (case s of [] \<Rightarrow> False | c # cs \<Rightarrow> in_class a c \<and> list_all (in_class b) cs)"
  by (cases s) (simp_all add: MatchString_Many)

lemma first_class_eq:
  "in_class [Range CHR ''a'' CHR ''z'', Range CHR ''A'' CHR ''Z''] c =
   in_class [Range CHR ''A'' CHR ''Z'', Range CHR ''a'' CHR ''z''] c"
  by (simp add: in_class_def disj_commute)

lemma rest_class_eq:
  "in_class [Range CHR ''a'' CHR ''z'', Range CHR ''A'' CHR ''Z'', Range CHR ''0'' CHR ''9'',
             Single CHR ''_'', Single CHR ''-''] =
   in_class [Range CHR ''A'' CHR ''Z'', Range CHR ''a'' CHR ''z'', Range CHR ''0'' CHR ''9'',
             Single CHR ''_'', Single CHR ''-'']"
  by (rule ext) (simp add: in_class_def disj_left_commute)

lemma reServiceName_spec:
  "MatchString reServiceName name = MatchString spec_service_name_pattern name"
  unfolding reServiceName_def spec_service_name_pattern_def MatchString_One_Many
    first_class_eq rest_class_eq ..

text \<open>
  C8. \<open>ValidateServiceName\<close> accepts a name exactly when it matches the specification's
  pattern \<open>^[A-Za-z][A-Za-z0-9_-]*$\<close> and is at most 70 bytes long, and fails with
  \<open>ErrInvalidServiceName\<close> otherwise.
\<close>

theorem validate_service_name_iff:
  "ValidateServiceName name =
     (if MatchString spec_service_name_pattern name \<and> length name \<le> 70 then None
      else Some ErrInvalidServiceName)"
  by (auto simp add: ValidateServiceName_def reServiceName_spec MaxNameLength_def)

theorem validate_service_name_iff_witness:
  "ValidateServiceName ''oracle-price_v2'' = None \<and>
   ValidateServiceName ''2fast'' = Some ErrInvalidServiceName \<and>
   ValidateServiceName [] = Some ErrInvalidServiceName \<and>
   ValidateServiceName (replicate 71 CHR ''a'') = Some ErrInvalidServiceName"
  using validate_service_name_iff [of "''oracle-price_v2''"]
    validate_service_name_iff [of "''2fast''"]
    validate_service_name_iff [of "[]"]
    validate_service_name_iff [of "replicate 71 CHR ''a''"]
  by (simp add: spec_service_name_pattern_def in_class_def)

text \<open>
  C5. \<open>ValidateOutput\<close> accepts exactly when the code is 200 and the output is non-empty
  valid JSON, or the code is not 200 and the output is empty; its only error is
  \<open>ErrInvalidResponse\<close>. Code 200 with empty output is rejected, code 400 with a
  non-empty output is rejected, and code 200 with the output \<open>{"x":1}\<close> is accepted
  (\<open>json.Valid\<close> holding of that text).
\<close>

theorem validate_output_iff:
  "(ValidateOutput ext code output = None \<longleftrightarrow>
      (code = 200 \<and> output \<noteq> [] \<and> json_Valid ext output) \<or> (code \<noteq> 200 \<and> output = [])) \<and>
   (ValidateOutput ext code output = None \<or>
      ValidateOutput ext code output = Some ErrInvalidResponse) \<and>
   ValidateOutput ext 200 [] = Some ErrInvalidResponse \<and>
   (output \<noteq> [] \<longrightarrow> ValidateOutput ext 400 output = Some ErrInvalidResponse) \<and>
   (json_Valid ext ''{\"x\":1}'' \<longrightarrow> ValidateOutput ext 200 ''{\"x\":1}'' = None)"
  by (auto simp add: ValidateOutput_def)

theorem validate_output_iff_witness:
  "json_Valid sample_extern ''{\"x\":1}'' \<and>
   ValidateOutput sample_extern 200 ''{\"x\":1}'' = None \<and>
   ValidateOutput sample_extern 400 ''{\"x\":1}'' = Some ErrInvalidResponse \<and>
   ValidateOutput sample_extern 200 ''{x'' = Some ErrInvalidResponse \<and>
   ValidateOutput sample_extern 500 [] = None"
proof -
  have v: "json_Valid sample_extern ''{\"x\":1}''" and n: "\<not> json_Valid sample_extern ''{x''"
    by (simp_all add: sample_extern_def)
  note t1 = validate_output_iff [of sample_extern 200 "''{\"x\":1}''"]
  note t2 = validate_output_iff [of sample_extern 400 "''{\"x\":1}''"]
  note t3 = validate_output_iff [of sample_extern 200 "''{x''"]
  note t4 = validate_output_iff [of sample_extern 500 "[]"]
  have a: "ValidateOutput sample_extern 200 ''{\"x\":1}'' = None"
    using t1 v by simp
  have b: "ValidateOutput sample_extern 400 ''{\"x\":1}'' = Some ErrInvalidResponse"
    using t2 by simp
  have c: "ValidateOutput sample_extern 200 ''{x'' = Some ErrInvalidResponse"
    using t3 n by auto
  have d: "ValidateOutput sample_extern 500 [] = None"
    using t4 by simp
  from v a b c d show ?thesis by blast
qed

section \<open>Properties of the request context\<close>

text \<open>
  C10. \<open>rc.Empty()\<close> is true exactly when \<open>rc.Consumer\<close> has length 0, and no other
  field affects it: two contexts with the same consumer are both empty or both not.
\<close>

theorem request_context_empty_iff:
  "(RequestContext_Empty rc \<longleftrightarrow> length (Consumer rc) = 0) \<and>
   (Consumer rc' = Consumer rc \<longrightarrow> RequestContext_Empty rc' = RequestContext_Empty rc)"
  by (simp add: RequestContext_Empty_def)

theorem request_context_empty_iff_witness:
  "Consumer \<lparr>ServiceName = [], Providers = [], Consumer = [], ServiceFeeCap = [], Input = [],
      ModuleName = [], Timeout = 0, RepeatedFrequency = 0, RepeatedTotal = 0,
      BatchCounter = 0, BatchRequestCount = 0, BatchResponseCount = 0,
      BatchResponseThreshold = 0, ResponseThreshold = 0, SuperMode = False, Repeated = False,
      BatchState = BATCHRUNNING, State = RUNNING\<rparr> =
   Consumer \<lparr>ServiceName = ''oracle'', Providers = [[1, 2], [3]], Consumer = [],
      ServiceFeeCap = [\<lparr>Denom = ''stake'', Amount = 5\<rparr>], Input = ''{}'',
      ModuleName = ''service'', Timeout = 100, RepeatedFrequency = 100, RepeatedTotal = - 1,
      BatchCounter = 3, BatchRequestCount = 2, BatchResponseCount = 1,
      BatchResponseThreshold = 2, ResponseThreshold = 2, SuperMode = True, Repeated = True,
      BatchState = BATCHCOMPLETED, State = PAUSED\<rparr> \<and>
   RequestContext_Empty
     \<lparr>ServiceName = ''oracle'', Providers = [[1, 2], [3]], Consumer = [],
      ServiceFeeCap = [\<lparr>Denom = ''stake'', Amount = 5\<rparr>], Input = ''{}'',
      ModuleName = ''service'', Timeout = 100, RepeatedFrequency = 100, RepeatedTotal = - 1,
      BatchCounter = 3, BatchRequestCount = 2, BatchResponseCount = 1,
      BatchResponseThreshold = 2, ResponseThreshold = 2, SuperMode = True, Repeated = True,
      BatchState = BATCHCOMPLETED, State = PAUSED\<rparr> \<and>
   RequestContext_Empty
     \<lparr>ServiceName = [], Providers = [], Consumer = [], ServiceFeeCap = [], Input = [],
      ModuleName = [], Timeout = 0, RepeatedFrequency = 0, RepeatedTotal = 0,
      BatchCounter = 0, BatchRequestCount = 0, BatchResponseCount = 0,
      BatchResponseThreshold = 0, ResponseThreshold = 0, SuperMode = False, Repeated = False,
      BatchState = BATCHRUNNING, State = RUNNING\<rparr> \<and>
   \<not> RequestContext_Empty
     \<lparr>ServiceName = [], Providers = [], Consumer = [7], ServiceFeeCap = [], Input = [],
      ModuleName = [], Timeout = 0, RepeatedFrequency = 0, RepeatedTotal = 0,
      BatchCounter = 0, BatchRequestCount = 0, BatchResponseCount = 0,
      BatchResponseThreshold = 0, ResponseThreshold = 0, SuperMode = False, Repeated = False,
      BatchState = BATCHRUNNING, State = RUNNING\<rparr>"
  using request_context_empty_iff [of
     "\<lparr>ServiceName = ''oracle'', Providers = [[1, 2], [3]], Consumer = [],
      ServiceFeeCap = [\<lparr>Denom = ''stake'', Amount = 5\<rparr>], Input = ''{}'',
      ModuleName = ''service'', Timeout = 100, RepeatedFrequency = 100, RepeatedTotal = - 1,
      BatchCounter = 3, BatchRequestCount = 2, BatchResponseCount = 1,
      BatchResponseThreshold = 2, ResponseThreshold = 2, SuperMode = True, Repeated = True,
      BatchState = BATCHCOMPLETED, State = PAUSED\<rparr>"
     "\<lparr>ServiceName = [], Providers = [], Consumer = [], ServiceFeeCap = [], Input = [],
      ModuleName = [], Timeout = 0, RepeatedFrequency = 0, RepeatedTotal = 0,
      BatchCounter = 0, BatchRequestCount = 0, BatchResponseCount = 0,
      BatchResponseThreshold = 0, ResponseThreshold = 0, SuperMode = False, Repeated = False,
      BatchState = BATCHRUNNING, State = RUNNING\<rparr>"]
    request_context_empty_iff [of
     "\<lparr>ServiceName = [], Providers = [], Consumer = [7], ServiceFeeCap = [], Input = [],
      ModuleName = [], Timeout = 0, RepeatedFrequency = 0, RepeatedTotal = 0,
      BatchCounter = 0, BatchRequestCount = 0, BatchResponseCount = 0,
      BatchResponseThreshold = 0, ResponseThreshold = 0, SuperMode = False, Repeated = False,
      BatchState = BATCHRUNNING, State = RUNNING\<rparr>"
     "\<lparr>ServiceName = [], Providers = [], Consumer = [7], ServiceFeeCap = [], Input = [],
      ModuleName = [], Timeout = 0, RepeatedFrequency = 0, RepeatedTotal = 0,
      BatchCounter = 0, BatchRequestCount = 0, BatchResponseCount = 0,
      BatchResponseThreshold = 0, ResponseThreshold = 0, SuperMode = False, Repeated = False,
      BatchState = BATCHRUNNING, State = RUNNING\<rparr>"]
  by simp


section \<open>Properties of the states' JSON form\<close>

lemma json_Unmarshal_string_error:
  "data \<noteq> JSONNull \<Longrightarrow> (\<forall>s. data \<noteq> JSONString s) \<Longrightarrow> \<exists>err. json_Unmarshal_string data v = Inl err"
  by (cases data) simp_all

text \<open>
  C9, as the code has it. For both state types, \<open>UnmarshalJSON\<close> applied to text that
  is not JSON, or to a JSON boolean, number, array or object, returns a nil error and
  leaves the receiver unchanged. Applied to a JSON string it sets the receiver when the
  lower-cased string is a key of the state map, and otherwise returns an error and leaves
  the receiver unchanged. The literal \<open>null\<close> is not a JSON string, but it is handled as
  the empty string is, so it too returns an error (\<open>strings.ToLower\<close> keeping the empty
  string empty).
\<close>

theorem unmarshal_json_outcomes:
  "(data \<noteq> JSONNull \<and> (\<forall>s. data \<noteq> JSONString s) \<longrightarrow>
      RequestContextState_UnmarshalJSON lower data st = (None, st) \<and>
      RequestContextBatchState_UnmarshalJSON lower data bst = (None, bst)) \<and>
   RequestContextState_UnmarshalJSON lower (JSONString s) st =
     (case StringToRequestContextStateMap (lower s) of
        Some v \<Rightarrow> (None, v)
      | None \<Rightarrow>
          (Some (FmtErrorf (CHR 0x27 # s @ CHR 0x27 # '' is not a valid request context state'')),
           st)) \<and>
   RequestContextBatchState_UnmarshalJSON lower (JSONString s) bst =
     (case StringToRequestContextBatchStateMap (lower s) of
        Some v \<Rightarrow> (None, v)
      | None \<Rightarrow>
          (Some (FmtErrorf
             (CHR 0x27 # s @ CHR 0x27 # '' is not a valid request context batch state'')),
           bst)) \<and>
   RequestContextState_UnmarshalJSON lower JSONNull st =
     RequestContextState_UnmarshalJSON lower (JSONString []) st \<and>
   RequestContextBatchState_UnmarshalJSON lower JSONNull bst =
     RequestContextBatchState_UnmarshalJSON lower (JSONString []) bst \<and>
   (lower [] = [] \<longrightarrow>
      RequestContextState_UnmarshalJSON lower JSONNull st =
        (Some (FmtErrorf (CHR 0x27 # CHR 0x27 # '' is not a valid request context state'')), st) \<and>
      RequestContextBatchState_UnmarshalJSON lower JSONNull bst =
        (Some (FmtErrorf (CHR 0x27 # CHR 0x27 # '' is not a valid request context batch state'')),
         bst))"
proof (intro conjI impI)
  assume d: "data \<noteq> JSONNull \<and> (\<forall>s. data \<noteq> JSONString s)"
  then obtain err where "json_Unmarshal_string data [] = Inl err"
    using json_Unmarshal_string_error [of data "[]"] by blast
  then show "RequestContextState_UnmarshalJSON lower data st = (None, st)"
    and "RequestContextBatchState_UnmarshalJSON lower data bst = (None, bst)"
    by (simp_all add: RequestContextState_UnmarshalJSON_def
        RequestContextBatchState_UnmarshalJSON_def)
next
  show "RequestContextState_UnmarshalJSON lower (JSONString s) st =
     (case StringToRequestContextStateMap (lower s) of
        Some v \<Rightarrow> (None, v)
      | None \<Rightarrow>
          (Some (FmtErrorf (CHR 0x27 # s @ CHR 0x27 # '' is not a valid request context state'')),
           st))"
    by (simp add: RequestContextState_UnmarshalJSON_def RequestContextStateFromString_def
        split: option.split)
next
  show "RequestContextBatchState_UnmarshalJSON lower (JSONString s) bst =
     (case StringToRequestContextBatchStateMap (lower s) of
        Some v \<Rightarrow> (None, v)
      | None \<Rightarrow>
          (Some (FmtErrorf
             (CHR 0x27 # s @ CHR 0x27 # '' is not a valid request context batch state'')),
           bst))"
    by (simp add: RequestContextBatchState_UnmarshalJSON_def
        RequestContextBatchStateFromString_def split: option.split)
next
  show "RequestContextState_UnmarshalJSON lower JSONNull st =
     RequestContextState_UnmarshalJSON lower (JSONString []) st"
    by (simp add: RequestContextState_UnmarshalJSON_def)
next
  show "RequestContextBatchState_UnmarshalJSON lower JSONNull bst =
     RequestContextBatchState_UnmarshalJSON lower (JSONString []) bst"
    by (simp add: RequestContextBatchState_UnmarshalJSON_def)
next
  assume "lower [] = []"
  then show "RequestContextState_UnmarshalJSON lower JSONNull st =
        (Some (FmtErrorf (CHR 0x27 # CHR 0x27 # '' is not a valid request context state'')), st)"
    by (simp add: RequestContextState_UnmarshalJSON_def RequestContextStateFromString_def
        StringToRequestContextStateMap_def)
next
  assume "lower [] = []"
  then show "RequestContextBatchState_UnmarshalJSON lower JSONNull bst =
        (Some (FmtErrorf (CHR 0x27 # CHR 0x27 # '' is not a valid request context batch state'')),
         bst)"
    by (simp add: RequestContextBatchState_UnmarshalJSON_def
        RequestContextBatchStateFromString_def StringToRequestContextBatchStateMap_def)
qed

theorem unmarshal_json_outcomes_witness:
  "ToLower_ascii [] = [] \<and>
   RequestContextState_UnmarshalJSON ToLower_ascii JSONNumber PAUSED = (None, PAUSED) \<and>
   RequestContextBatchState_UnmarshalJSON ToLower_ascii JSONObject BATCHCOMPLETED =
     (None, BATCHCOMPLETED) \<and>
   RequestContextState_UnmarshalJSON ToLower_ascii (JSONString ''Completed'') RUNNING =
     (None, COMPLETED) \<and>
   fst (RequestContextState_UnmarshalJSON ToLower_ascii (JSONString ''done'') RUNNING) \<noteq> None \<and>
   fst (RequestContextBatchState_UnmarshalJSON ToLower_ascii (JSONString ''paused'') BATCHRUNNING)
     \<noteq> None \<and>
   fst (RequestContextState_UnmarshalJSON ToLower_ascii JSONNull PAUSED) \<noteq> None"
proof -
  have l: "ToLower_ascii [] = []"
    by (simp add: ToLower_ascii_def)
  have l1: "ToLower_ascii ''Completed'' = ''completed''"
    and l2: "ToLower_ascii ''done'' = ''done''"
    and l3: "ToLower_ascii ''paused'' = ''paused''"
    by code_simp+
  have a: "RequestContextState_UnmarshalJSON ToLower_ascii JSONNumber PAUSED = (None, PAUSED)"
    using unmarshal_json_outcomes [of JSONNumber ToLower_ascii PAUSED BATCHRUNNING "[]"]
    by simp
  have b: "RequestContextBatchState_UnmarshalJSON ToLower_ascii JSONObject BATCHCOMPLETED =
      (None, BATCHCOMPLETED)"
    using unmarshal_json_outcomes [of JSONObject ToLower_ascii RUNNING BATCHCOMPLETED "[]"]
    by simp
  have c: "RequestContextState_UnmarshalJSON ToLower_ascii (JSONString ''Completed'') RUNNING =
      (None, COMPLETED)"
    using unmarshal_json_outcomes [of JSONNull ToLower_ascii RUNNING BATCHRUNNING "''Completed''"]
    by (simp add: l1 StringToRequestContextStateMap_def)
  have d: "fst (RequestContextState_UnmarshalJSON ToLower_ascii (JSONString ''done'') RUNNING) \<noteq> None"
    using unmarshal_json_outcomes [of JSONNull ToLower_ascii RUNNING BATCHRUNNING "''done''"]
    by (simp add: l2 StringToRequestContextStateMap_def)
  have e: "fst (RequestContextBatchState_UnmarshalJSON ToLower_ascii (JSONString ''paused'')
      BATCHRUNNING) \<noteq> None"
    using unmarshal_json_outcomes [of JSONNull ToLower_ascii RUNNING BATCHRUNNING "''paused''"]
    by (simp add: l3 StringToRequestContextBatchStateMap_def)
  have f: "fst (RequestContextState_UnmarshalJSON ToLower_ascii JSONNull PAUSED) \<noteq> None"
    using unmarshal_json_outcomes [of JSONNull ToLower_ascii PAUSED BATCHRUNNING "[]"] l
    by (simp add: StringToRequestContextStateMap_def)
  from l a b c d e f show ?thesis by blast
qed

text \<open>
  The claim as it was stated fails on \<open>null\<close>: it is not a JSON string, and both
  \<open>UnmarshalJSON\<close> methods return an error for it.
\<close>

theorem unmarshal_json_null_counterexample:
  "RequestContextState_UnmarshalJSON ToLower_ascii JSONNull RUNNING =
     (Some (FmtErrorf (CHR 0x27 # CHR 0x27 # '' is not a valid request context state'')),
      RUNNING) \<and>
   RequestContextBatchState_UnmarshalJSON ToLower_ascii JSONNull BATCHRUNNING =
     (Some (FmtErrorf (CHR 0x27 # CHR 0x27 # '' is not a valid request context batch state'')),
      BATCHRUNNING)"
  by (simp add: RequestContextState_UnmarshalJSON_def RequestContextStateFromString_def
      StringToRequestContextStateMap_def RequestContextBatchState_UnmarshalJSON_def
      RequestContextBatchStateFromString_def StringToRequestContextBatchStateMap_def
      ToLower_ascii_def)

end
